theory Spec2Isabelle
  imports Main
begin

section \<open>The MCP manager component of the admin front end\<close>

text \<open>
  The theory embeds \<^verbatim>\<open>admin-frontend/src/components/MCPManager.tsx\<close>: the React
  component that opens a WebSocket to the MCP server, announces itself, asks for the tool
  list and lets the user call one tool. Each handler of the component is a function from
  the component state to the component state; what the browser does around the handlers
  (the socket's \<^verbatim>\<open>readyState\<close>, the 200 ms timer, the button that is disabled while
  a call is loading) is written into the step function \<open>step\<close>.
\<close>

subsection \<open>JSON values as JavaScript sees them\<close>

text \<open>
  The value returned by \<^verbatim>\<open>JSON.parse\<close>. Numbers are the integers among the JSON
  numbers (the handlers only test a number for truthiness and print it); characters are
  8 bit, so the accented letters of the French messages are single characters. An object
  is an association list read with \<open>map_of\<close>. \<^verbatim>\<open>undefined\<close> is \<open>None\<close> of
  \<open>json option\<close>.
\<close>

datatype json =
    JNull
  | JBool bool
  | JNum int
  | JStr string
  | JArr "json list"
  | JObj "(string \<times> json) list"

text \<open>JavaScript truthiness (\<^verbatim>\<open>a && b\<close>, \<^verbatim>\<open>c ? x : y\<close>, \<^verbatim>\<open>!tool\<close>).\<close>

fun truthy :: "json \<Rightarrow> bool" where
  "truthy JNull = False"
| "truthy (JBool b) = b"
| "truthy (JNum n) = (n \<noteq> 0)"
| "truthy (JStr s) = (s \<noteq> [])"
| "truthy (JArr xs) = True"
| "truthy (JObj kvs) = True"

definition truthy_opt :: "json option \<Rightarrow> bool" where
  "truthy_opt v = (case v of None \<Rightarrow> False | Some x \<Rightarrow> truthy x)"

text \<open>
  Reading a property \<^verbatim>\<open>v.k\<close> of a value that is neither \<^verbatim>\<open>null\<close> nor
  \<^verbatim>\<open>undefined\<close>, for the property names the component reads (\<^verbatim>\<open>result\<close>,
  \<^verbatim>\<open>tools\<close>, \<^verbatim>\<open>content\<close>, \<^verbatim>\<open>error\<close>, \<^verbatim>\<open>message\<close>, \<^verbatim>\<open>data\<close>,
  \<^verbatim>\<open>text\<close>, \<^verbatim>\<open>name\<close>): an object gives its own property, every other value gives
  \<^verbatim>\<open>undefined\<close>. Reading a property of \<^verbatim>\<open>null\<close> throws; the callers below test for
  \<open>JNull\<close> before they use \<open>field\<close>.
\<close>

definition field :: "json \<Rightarrow> string \<Rightarrow> json option" where
  "field v k = (case v of JObj kvs \<Rightarrow> map_of kvs k | _ \<Rightarrow> None)"

definition has_field :: "json \<Rightarrow> string \<Rightarrow> bool" where
  "has_field v k = (field v k \<noteq> None)"

text \<open>Decimal digits of a number, for \<^verbatim>\<open>String(n)\<close>.\<close>

fun show_nat :: "nat \<Rightarrow> string" where
  "show_nat n =
     (if n < 10 then [char_of (48 + n)]
      else show_nat (n div 10) @ [char_of (48 + n mod 10)])"

definition show_int :: "int \<Rightarrow> string" where
  "show_int i = (if i < 0 then CHR ''-'' # show_nat (nat (- i)) else show_nat (nat i))"

text \<open>\<^verbatim>\<open>xs.join(sep)\<close> on strings already converted.\<close>

fun join :: "string \<Rightarrow> string list \<Rightarrow> string" where
  "join sep [] = []"
| "join sep [x] = x"
| "join sep (x # y # ys) = x @ sep @ join sep (y # ys)"

text \<open>
  \<^verbatim>\<open>String(v)\<close>, which is also what \<^verbatim>\<open>'...' + v\<close> appends: an array prints its
  elements separated by commas, with \<^verbatim>\<open>null\<close> elements printed as the empty string;
  an object prints as \<^verbatim>\<open>[object Object]\<close>. Two limits of the model, both on the text
  of a message only: a number stands for an integer below \<open>10^21\<close> in size, which
  JavaScript prints in decimal (it prints larger ones with an exponent), and an object is
  taken to have no own property \<^verbatim>\<open>toString\<close> (with one that is not a function the
  conversion throws, inside the \<^verbatim>\<open>try\<close> block).
\<close>

fun to_string :: "json \<Rightarrow> string" where
  "to_string JNull = ''null''"
| "to_string (JBool b) = (if b then ''true'' else ''false'')"
| "to_string (JNum n) = show_int n"
| "to_string (JStr s) = s"
| "to_string (JArr xs) =
     join '','' (map (\<lambda>x. if x = JNull then [] else to_string x) xs)"
| "to_string (JObj kvs) = ''[object Object]''"

definition to_string_opt :: "json option \<Rightarrow> string" where
  "to_string_opt v = (case v of None \<Rightarrow> ''undefined'' | Some x \<Rightarrow> to_string x)"

text \<open>An element of an array inside \<^verbatim>\<open>join\<close>: \<^verbatim>\<open>undefined\<close> and \<^verbatim>\<open>null\<close> print as
  the empty string.\<close>

definition join_elem :: "json option \<Rightarrow> string" where
  "join_elem v = (case v of None \<Rightarrow> [] | Some x \<Rightarrow> if x = JNull then [] else to_string x)"

subsection \<open>Component state\<close>

datatype status = Checking | Online | Offline

text \<open>
  The \<^verbatim>\<open>useState\<close> cells of the component, the closure variable \<^verbatim>\<open>isOpen\<close> of the
  effect, and the socket the effect creates: its \<^verbatim>\<open>readyState\<close> (0 connecting, 1 open,
  2 closing, 3 closed), the frames handed to it while open (\<open>sent\<close>, each the value given
  to \<^verbatim>\<open>JSON.stringify\<close>) and the number of \<^verbatim>\<open>setTimeout\<close> callbacks still to run
  (\<open>listTimer\<close>). \<open>ws\<close> tells whether the state cell \<^verbatim>\<open>ws\<close> holds the socket
  (\<open>False\<close> is \<^verbatim>\<open>null\<close>). \<open>tools\<close> is whatever value \<^verbatim>\<open>setTools\<close> was given.
\<close>

record state =
  status :: status
  tools :: json
  selectedTool :: string
  toolArgs :: "(string \<times> json) list"
  response :: string
  error :: string
  loading :: bool
  ws :: bool
  isOpen :: bool
  readyState :: nat
  sent :: "json list"
  listTimer :: nat

text \<open>A handler either returns or lets an exception escape; the state updates made before
  the exception stay.\<close>

datatype completion = Normal state | Throws string state

fun state_of :: "completion \<Rightarrow> state" where
  "state_of (Normal s) = s"
| "state_of (Throws e s) = s"

text \<open>The state after the effect has run: the initial values of the cells, the three
  setters of the effect, and a socket that is still connecting.\<close>

definition mount :: state where
  "mount = \<lparr> status = Checking, tools = JArr [], selectedTool = [], toolArgs = [],
             response = [], error = [], loading = False, ws = True, isOpen = False,
             readyState = 0, sent = [], listTimer = 0 \<rparr>"

subsection \<open>Incoming frames: \<^verbatim>\<open>socket.onmessage\<close>\<close>

text \<open>
  What \<^verbatim>\<open>JSON.parse(event.data)\<close> does with the frame: it throws a
  \<^verbatim>\<open>SyntaxError\<close> with some message, or returns a value.
\<close>

datatype frame = BadJSON string | Parsed json

text \<open>The \<^verbatim>\<open>catch\<close> block; \<open>e\<close> is \<^verbatim>\<open>String(e)\<close>.\<close>

definition catch_block :: "state \<Rightarrow> string \<Rightarrow> state" where
  "catch_block s e = s\<lparr> error := ''Erreur de parsing MCP: '' @ e, loading := False \<rparr>"

text \<open>
  \<^verbatim>\<open>data.result.content.map((c: any) => c.text)\<close>: \<^verbatim>\<open>map\<close> exists on arrays only,
  and \<^verbatim>\<open>c.text\<close> throws on a \<^verbatim>\<open>null\<close> element. The texts of the
  \<^verbatim>\<open>TypeError\<close>s are those of V8.
\<close>

fun content_texts :: "json list \<Rightarrow> string + json option list" where
  "content_texts [] = Inr []"
| "content_texts (c # cs) =
     (if c = JNull then Inl ''TypeError: Cannot read properties of null (reading 'text')''
      else (case content_texts cs of
              Inl e \<Rightarrow> Inl e
            | Inr ts \<Rightarrow> Inr (field c ''text'' # ts)))"

definition content_map :: "json \<Rightarrow> string + json option list" where
  "content_map content =
     (case content of
        JArr cs \<Rightarrow> content_texts cs
      | _ \<Rightarrow> Inl ''TypeError: data.result.content.map is not a function'')"

text \<open>
  The value of \<^verbatim>\<open>v && v.k\<close> when it is truthy (then it is \<^verbatim>\<open>v.k\<close>), and of
  \<^verbatim>\<open>v\<close> when it is truthy; \<open>None\<close> when the test fails.
\<close>

definition truthy_val :: "json option \<Rightarrow> json option" where
  "truthy_val v = (case v of None \<Rightarrow> None | Some x \<Rightarrow> if truthy x then Some x else None)"

definition truthy_field :: "json option \<Rightarrow> string \<Rightarrow> json option" where
  "truthy_field v k =
     (case truthy_val v of None \<Rightarrow> None | Some x \<Rightarrow> truthy_val (field x k))"

text \<open>The body of the \<^verbatim>\<open>try\<close> block after a successful parse: \<open>Inl\<close> is the
  exception thrown (as \<^verbatim>\<open>String(e)\<close>), before any setter has run.\<close>

definition try_block :: "state \<Rightarrow> json \<Rightarrow> string + state" where
  "try_block s data =
     (if data = JNull then Inl ''TypeError: Cannot read properties of null (reading 'result')''
      else
        (case truthy_field (field data ''result'') ''tools'' of
           Some ts \<Rightarrow> Inr (s\<lparr> tools := ts \<rparr>)
         | None \<Rightarrow>
        (case truthy_field (field data ''result'') ''content'' of
           Some content \<Rightarrow>
             (case content_map content of
                Inl e \<Rightarrow> Inl e
              | Inr ts \<Rightarrow> Inr (s\<lparr> response := join [CHR 0x0A] (map join_elem ts),
                                   loading := False \<rparr>))
         | None \<Rightarrow>
        (case truthy_val (field data ''error'') of
           Some err \<Rightarrow>
             Inr (s\<lparr> error := to_string_opt (field err ''message'') @
                                (if truthy_opt (field err ''data'')
                                 then '': '' @ to_string_opt (field err ''data'') else []),
                      loading := False \<rparr>)
         | None \<Rightarrow> Inr s))))"

definition onmessage :: "state \<Rightarrow> frame \<Rightarrow> state" where
  "onmessage s f =
     (case f of
        BadJSON msg \<Rightarrow> catch_block s (''SyntaxError: '' @ msg)
      | Parsed data \<Rightarrow>
          (case try_block s data of
             Inl e \<Rightarrow> catch_block s e
           | Inr s' \<Rightarrow> s'))"

subsection \<open>Outgoing frames\<close>

definition initialize_frame :: json where
  "initialize_frame =
     JObj [(''jsonrpc'', JStr ''2.0''),
           (''id'', JStr ''init''),
           (''method'', JStr ''initialize''),
           (''params'', JObj [(''protocolVersion'', JStr ''2024-11-05''),
                              (''capabilities'', JObj [(''tools'', JObj [])]),
                              (''clientInfo'', JObj [(''name'', JStr ''AdminFrontend''),
                                                     (''version'', JStr ''1.0.0'')])])]"

definition list_frame :: json where
  "list_frame =
     JObj [(''jsonrpc'', JStr ''2.0''),
           (''id'', JStr ''list''),
           (''method'', JStr ''tools/list''),
           (''params'', JObj [])]"

definition call_frame :: "string \<Rightarrow> (string \<times> json) list \<Rightarrow> json" where
  "call_frame sel args =
     JObj [(''jsonrpc'', JStr ''2.0''),
           (''id'', JStr (''call_'' @ sel)),
           (''method'', JStr ''tools/call''),
           (''params'', JObj [(''name'', JStr sel), (''arguments'', JObj args)])]"

text \<open>
  \<^verbatim>\<open>socket.send\<close>: it throws while the socket is connecting, transmits while it is
  open, and drops the frame once the socket is closing or closed.
\<close>

definition socket_send :: "state \<Rightarrow> json \<Rightarrow> completion" where
  "socket_send s f =
     (if readyState s = 0 then
        Throws ''InvalidStateError: Failed to execute 'send' on 'WebSocket': Still in CONNECTING state.'' s
      else if readyState s = 1 then Normal (s\<lparr> sent := sent s @ [f] \<rparr>)
      else Normal s)"

subsection \<open>Socket handlers\<close>

text \<open>\<^verbatim>\<open>socket.onopen\<close>: the \<^verbatim>\<open>initialize\<close> frame at once, the \<^verbatim>\<open>tools/list\<close>
  frame from a timer.\<close>

definition onopen :: "state \<Rightarrow> completion" where
  "onopen s =
     (case socket_send (s\<lparr> isOpen := True, status := Online \<rparr>) initialize_frame of
        Throws e s' \<Rightarrow> Throws e s'
      | Normal s' \<Rightarrow> Normal (s'\<lparr> listTimer := Suc (listTimer s') \<rparr>))"

text \<open>The callback given to \<^verbatim>\<open>setTimeout(..., 200)\<close>.\<close>

definition list_timeout :: "state \<Rightarrow> completion" where
  "list_timeout s = socket_send s list_frame"

definition onerror :: "state \<Rightarrow> state" where
  "onerror s = s\<lparr> status := Offline, error := ''Impossible de se connecter au serveur MCP.'' \<rparr>"

definition msg_closed :: string where
  "msg_closed = ''Connexion MCP ferm'' @ [CHR 0xE9] @ ''e.''"

definition onclose :: "state \<Rightarrow> state" where
  "onclose s =
     (let s1 = s\<lparr> status := Offline \<rparr>
      in if isOpen s then s1\<lparr> error := msg_closed \<rparr> else s1)"

subsection \<open>The form and the call\<close>

text \<open>\<^verbatim>\<open>{ ...prev, [key]: value }\<close>: the key keeps its place when it is there already.\<close>

fun obj_put :: "(string \<times> json) list \<Rightarrow> string \<Rightarrow> json \<Rightarrow> (string \<times> json) list" where
  "obj_put [] k v = [(k, v)]"
| "obj_put ((k', v') # kvs) k v =
     (if k' = k then (k, v) # kvs else (k', v') # obj_put kvs k v)"

definition handleToolChange :: "state \<Rightarrow> string \<Rightarrow> state" where
  "handleToolChange s v = s\<lparr> selectedTool := v, toolArgs := [], response := [], error := [] \<rparr>"

definition handleArgChange :: "state \<Rightarrow> string \<Rightarrow> json \<Rightarrow> state" where
  "handleArgChange s key v = s\<lparr> toolArgs := obj_put (toolArgs s) key v \<rparr>"

text \<open>
  \<^verbatim>\<open>tools.find(t => t.name === selectedTool)\<close>: \<^verbatim>\<open>find\<close> exists on arrays only,
  \<^verbatim>\<open>t.name\<close> throws on a \<^verbatim>\<open>null\<close> element, and \<^verbatim>\<open>===\<close> with a string holds
  for that very string only. \<open>Inr None\<close> is \<^verbatim>\<open>undefined\<close>: no element matched.
\<close>

fun find_tool :: "json list \<Rightarrow> string \<Rightarrow> string + json option" where
  "find_tool [] sel = Inr None"
| "find_tool (t # ts) sel =
     (if t = JNull then Inl ''TypeError: Cannot read properties of null (reading 'name')''
      else if field t ''name'' = Some (JStr sel) then Inr (Some t)
      else find_tool ts sel)"

definition tools_find :: "json \<Rightarrow> string \<Rightarrow> string + json option" where
  "tools_find tls sel =
     (case tls of
        JArr ts \<Rightarrow> find_tool ts sel
      | JNull \<Rightarrow> Inl ''TypeError: Cannot read properties of null (reading 'find')''
      | _ \<Rightarrow> Inl ''TypeError: tools.find is not a function'')"

definition msg_not_connected :: string where
  "msg_not_connected = ''WebSocket MCP non connect'' @ [CHR 0xE9] @ ''.''"

definition msg_not_found :: string where
  "msg_not_found = ''Outil non trouv'' @ [CHR 0xE9] @ ''.''"

text \<open>\<^verbatim>\<open>handleCallTool\<close>. No handler catches what \<^verbatim>\<open>tools.find\<close> throws.\<close>

definition handleCallTool :: "state \<Rightarrow> completion" where
  "handleCallTool s =
     (let s1 = s\<lparr> loading := True, response := [], error := [] \<rparr>
      in if \<not> ws s \<or> readyState s \<noteq> 1 then
           Normal (s1\<lparr> error := msg_not_connected, loading := False \<rparr>)
         else
           (case tools_find (tools s) (selectedTool s) of
              Inl e \<Rightarrow> Throws e s1
            | Inr None \<Rightarrow> Normal (s1\<lparr> error := msg_not_found, loading := False \<rparr>)
            | Inr (Some tool) \<Rightarrow>
                socket_send s1 (call_frame (selectedTool s) (toolArgs s))))"

subsection \<open>Runs of the component\<close>

text \<open>
  The events the browser delivers. The socket is open when \<^verbatim>\<open>onopen\<close> runs and closed
  when \<^verbatim>\<open>onerror\<close> and \<^verbatim>\<open>onclose\<close> run. A click on the \<open>i\<close>-th entry of the tool
  list selects the name of that tool; the call button is there once a tool is selected and
  is disabled while \<open>loading\<close> holds. The cell \<^verbatim>\<open>selectedTool\<close> is declared a string and
  is one here: \<open>select_tool\<close> covers the entries whose name is a string and leaves the state
  alone on any other entry, where the code would store the name as it is, string or not.
\<close>

datatype event =
    OpenEv
  | ListTimerEv
  | ErrorEv
  | CloseEv
  | MessageEv frame
  | SelectEv nat
  | ArgEv string string
  | CallEv

definition select_tool :: "state \<Rightarrow> nat \<Rightarrow> state" where
  "select_tool s i =
     (case tools s of
        JArr ts \<Rightarrow>
          (if i < length ts then
             (case field (ts ! i) ''name'' of
                Some (JStr n) \<Rightarrow> s\<lparr> selectedTool := n \<rparr>
              | _ \<Rightarrow> s)
           else s)
      | _ \<Rightarrow> s)"

fun step :: "state \<Rightarrow> event \<Rightarrow> state" where
  "step s OpenEv = state_of (onopen (s\<lparr> readyState := 1 \<rparr>))"
| "step s ListTimerEv =
     (if listTimer s = 0 then s
      else state_of (list_timeout (s\<lparr> listTimer := listTimer s - 1 \<rparr>)))"
| "step s ErrorEv = onerror (s\<lparr> readyState := 3 \<rparr>)"
| "step s CloseEv = onclose (s\<lparr> readyState := 3 \<rparr>)"
| "step s (MessageEv f) = onmessage s f"
| "step s (SelectEv i) = select_tool s i"
| "step s (ArgEv k v) = handleArgChange s k (JStr v)"
| "step s CallEv =
     (if selectedTool s \<noteq> [] \<and> \<not> loading s then state_of (handleCallTool s) else s)"

fun run :: "state \<Rightarrow> event list \<Rightarrow> state" where
  "run s [] = s"
| "run s (e # es) = run (step s e) es"

subsection \<open>A session used in the examples\<close>

text \<open>
  The socket is open when the handler reads \<^verbatim>\<open>ws.readyState === 1\<close> on a socket
  that is there; the component has no other notion of an open session.
\<close>

definition socket_open :: "state \<Rightarrow> bool" where
  "socket_open s = (ws s \<and> readyState s = 1)"

definition check_stock_tool :: json where
  "check_stock_tool =
     JObj [(''name'', JStr ''check_stock''),
           (''description'', JStr ''Check the stock of a product''),
           (''inputSchema'',
            JObj [(''type'', JStr ''object''),
                  (''properties'', JObj [(''product_id'', JObj [(''type'', JStr ''string'')])]),
                  (''required'', JArr [JStr ''product_id''])])]"

text \<open>A tool that requires a number \<^verbatim>\<open>a\<close> and a string \<^verbatim>\<open>b\<close>.\<close>

definition payment_tool :: json where
  "payment_tool =
     JObj [(''name'', JStr ''process_payment''),
           (''description'', JStr ''Process a payment''),
           (''inputSchema'',
            JObj [(''type'', JStr ''object''),
                  (''properties'', JObj [(''a'', JObj [(''type'', JStr ''number'')]),
                                         (''b'', JObj [(''type'', JStr ''string'')])]),
                  (''required'', JArr [JStr ''a'', JStr ''b''])])]"

definition tools_frame :: frame where
  "tools_frame =
     Parsed (JObj [(''jsonrpc'', JStr ''2.0''), (''id'', JStr ''list''),
                   (''result'', JObj [(''tools'', JArr [check_stock_tool, payment_tool])])])"

definition initialize_ack :: json where
  "initialize_ack =
     JObj [(''jsonrpc'', JStr ''2.0''), (''id'', JStr ''init''),
           (''result'', JObj [(''protocolVersion'', JStr ''2024-11-05''),
                              (''capabilities'', JObj [(''tools'', JObj [])]),
                              (''serverInfo'', JObj [(''name'', JStr ''cognitive-order-system''),
                                                     (''version'', JStr ''1.0.0'')])])]"


definition error_frame :: "string \<Rightarrow> int \<Rightarrow> string \<Rightarrow> frame" where
  "error_frame i c m =
     Parsed (JObj [(''jsonrpc'', JStr ''2.0''), (''id'', JStr i),
                   (''error'', JObj [(''code'', JNum c), (''message'', JStr m)])])"

text \<open>The socket opens, the timer fires, the server answers the \<^verbatim>\<open>tools/list\<close>
  request.\<close>

definition handshake :: "event list" where
  "handshake = [OpenEv, ListTimerEv, MessageEv tools_frame]"

definition idle_state :: state where
  "idle_state =
     \<lparr> status = Online, tools = JArr [check_stock_tool, payment_tool], selectedTool = [],
       toolArgs = [], response = [], error = [], loading = False, ws = True, isOpen = True,
       readyState = 1, sent = [initialize_frame, list_frame], listTimer = 0 \<rparr>"

definition selected_state :: "string \<Rightarrow> (string \<times> json) list \<Rightarrow> state" where
  "selected_state sel args = idle_state\<lparr> selectedTool := sel, toolArgs := args \<rparr>"

definition calling_state :: "string \<Rightarrow> (string \<times> json) list \<Rightarrow> state" where
  "calling_state sel args =
     idle_state\<lparr> selectedTool := sel, toolArgs := args, loading := True,
                 sent := [initialize_frame, list_frame, call_frame sel args] \<rparr>"

text \<open>The tool list is replaced after \<^verbatim>\<open>check_stock\<close> was selected: the selection
  names a tool that is no longer there.\<close>

definition stale_selection :: state where
  "stale_selection = (selected_state ''check_stock'' [])\<lparr> tools := JArr [payment_tool] \<rparr>"


subsection \<open>Responses as the wire protocol writes them\<close>






subsection \<open>The session of the specification\<close>








subsection \<open>Predicates on frames and states\<close>

text \<open>
  The shape of a request: an object with the fields \<^verbatim>\<open>jsonrpc\<close>, \<^verbatim>\<open>id\<close>,
  \<^verbatim>\<open>method\<close> and \<^verbatim>\<open>params\<close> and no other, where \<^verbatim>\<open>jsonrpc\<close> is the string
  \<^verbatim>\<open>2.0\<close>, the id is a string, the method is one of the three the component uses and
  the parameters are an object.
\<close>

definition request_shape :: "json \<Rightarrow> bool" where
  "request_shape f =
     (case f of
        JObj kvs \<Rightarrow>
          map fst kvs = [''jsonrpc'', ''id'', ''method'', ''params''] \<and>
          map_of kvs ''jsonrpc'' = Some (JStr ''2.0'') \<and>
          (case map_of kvs ''id'' of Some (JStr i) \<Rightarrow> True | _ \<Rightarrow> False) \<and>
          map_of kvs ''method'' \<in> Some ` JStr ` {''initialize'', ''tools/list'', ''tools/call''} \<and>
          (case map_of kvs ''params'' of Some (JObj ps) \<Rightarrow> True | _ \<Rightarrow> False)
      | _ \<Rightarrow> False)"

text \<open>
  The invariant of the frames sent: as long as nothing was sent, no timer is pending and
  the socket is not open; afterwards the first frame sent is the \<^verbatim>\<open>initialize\<close> request.
\<close>

definition wire_ok :: "state \<Rightarrow> bool" where
  "wire_ok s =
     (if sent s = [] then listTimer s = 0 \<and> readyState s \<noteq> 1
      else hd (sent s) = initialize_frame)"


section \<open>Properties\<close>

subsection \<open>The example states are states of runs\<close>

lemma idle_state_reached: "run mount handshake = idle_state"
  by code_simp

lemma selected_state_reached:
  "run mount (handshake @ [SelectEv 1, ArgEv ''a'' ''x'', ArgEv ''b'' ''y'']) =
     selected_state ''process_payment'' [(''a'', JStr ''x''), (''b'', JStr ''y'')]"
  by code_simp

lemma calling_state_reached:
  "run mount (handshake @ [SelectEv 0, CallEv]) = calling_state ''check_stock'' []"
  by code_simp

lemma stale_selection_reached:
  "run mount (handshake @
     [SelectEv 0,
      MessageEv (Parsed (JObj [(''jsonrpc'', JStr ''2.0''), (''id'', JStr ''list''),
                               (''result'', JObj [(''tools'', JArr [payment_tool])])]))])
   = stale_selection"
  by code_simp


subsection \<open>What the message handler leaves alone\<close>

lemma try_block_keeps:
  assumes "try_block s d = Inr s'"
  shows "status s' = status s \<and> ws s' = ws s \<and> isOpen s' = isOpen s \<and>
         readyState s' = readyState s \<and> selectedTool s' = selectedTool s \<and>
         toolArgs s' = toolArgs s \<and> sent s' = sent s \<and> listTimer s' = listTimer s"
  using assms unfolding try_block_def
  by (auto split: if_splits option.splits sum.splits)

lemma catch_block_keeps:
  "status (catch_block s e) = status s \<and> ws (catch_block s e) = ws s \<and>
   isOpen (catch_block s e) = isOpen s \<and> readyState (catch_block s e) = readyState s \<and>
   selectedTool (catch_block s e) = selectedTool s \<and> toolArgs (catch_block s e) = toolArgs s \<and>
   sent (catch_block s e) = sent s \<and> listTimer (catch_block s e) = listTimer s"
  by (simp add: catch_block_def)

lemma onmessage_keeps:
  "status (onmessage s f) = status s \<and> ws (onmessage s f) = ws s \<and>
   isOpen (onmessage s f) = isOpen s \<and> readyState (onmessage s f) = readyState s \<and>
   selectedTool (onmessage s f) = selectedTool s \<and> toolArgs (onmessage s f) = toolArgs s \<and>
   sent (onmessage s f) = sent s \<and> listTimer (onmessage s f) = listTimer s"
proof (cases f)
  case (BadJSON msg)
  then show ?thesis by (simp add: onmessage_def catch_block_keeps)
next
  case (Parsed d)
  show ?thesis
  proof (cases "try_block s d")
    case (Inl e)
    with Parsed show ?thesis by (simp add: onmessage_def catch_block_keeps)
  next
    case (Inr s')
    with Parsed try_block_keeps[OF Inr] show ?thesis by (simp add: onmessage_def)
  qed
qed



subsection \<open>What the message handler does, case by case\<close>













subsection \<open>What each step sends\<close>

lemma socket_send_sent:
  "sent (state_of (socket_send s f)) = (if readyState s = 1 then sent s @ [f] else sent s)"
  by (simp add: socket_send_def)

lemma socket_send_other:
  "listTimer (state_of (socket_send s f)) = listTimer s \<and>
   readyState (state_of (socket_send s f)) = readyState s \<and>
   status (state_of (socket_send s f)) = status s \<and>
   ws (state_of (socket_send s f)) = ws s"
  by (simp add: socket_send_def)

lemma onopen_effect:
  "readyState s = 1 \<Longrightarrow>
   onopen s = Normal (s\<lparr> isOpen := True, status := Online,
                         sent := sent s @ [initialize_frame],
                         listTimer := Suc (listTimer s) \<rparr>)"
  by (simp add: onopen_def socket_send_def)

lemma handleCallTool_wire:
  "listTimer (state_of (handleCallTool s)) = listTimer s \<and>
   readyState (state_of (handleCallTool s)) = readyState s \<and>
   status (state_of (handleCallTool s)) = status s \<and>
   ws (state_of (handleCallTool s)) = ws s \<and>
   (sent (state_of (handleCallTool s)) = sent s \<or>
    readyState s = 1 \<and>
    sent (state_of (handleCallTool s)) = sent s @ [call_frame (selectedTool s) (toolArgs s)])"
  by (auto simp: handleCallTool_def socket_send_def Let_def split: sum.splits option.splits)

lemma select_tool_wire:
  "sent (select_tool s i) = sent s \<and> listTimer (select_tool s i) = listTimer s \<and>
   readyState (select_tool s i) = readyState s \<and> status (select_tool s i) = status s \<and>
   ws (select_tool s i) = ws s"
  by (simp add: select_tool_def split: json.splits option.splits)

lemma step_sent:
  "\<exists>fs. sent (step s e) = sent s @ fs \<and>
        set fs \<subseteq> {initialize_frame, list_frame, call_frame (selectedTool s) (toolArgs s)}"
proof (cases e)
  case OpenEv
  then show ?thesis by (simp add: onopen_effect)
next
  case ListTimerEv
  then show ?thesis by (simp add: list_timeout_def socket_send_sent)
next
  case ErrorEv
  then show ?thesis by (simp add: onerror_def)
next
  case CloseEv
  then show ?thesis by (simp add: onclose_def Let_def)
next
  case (MessageEv f)
  then show ?thesis by (simp add: onmessage_keeps)
next
  case (SelectEv i)
  then show ?thesis by (simp add: select_tool_wire)
next
  case (ArgEv k v)
  then show ?thesis by (simp add: handleArgChange_def)
next
  case CallEv
  then show ?thesis using handleCallTool_wire[of s] by auto
qed

lemma wire_ok_step: "wire_ok s \<Longrightarrow> wire_ok (step s e)"
proof (cases e)
  case OpenEv
  assume "wire_ok s"
  with OpenEv show ?thesis
    by (auto simp: onopen_effect wire_ok_def hd_append split: if_splits)
next
  case ListTimerEv
  assume "wire_ok s"
  with ListTimerEv show ?thesis
    by (auto simp: list_timeout_def socket_send_sent socket_send_other wire_ok_def hd_append
        split: if_splits)
next
  case ErrorEv
  assume "wire_ok s"
  with ErrorEv show ?thesis by (auto simp: onerror_def wire_ok_def split: if_splits)
next
  case CloseEv
  assume "wire_ok s"
  with CloseEv show ?thesis by (auto simp: onclose_def Let_def wire_ok_def split: if_splits)
next
  case (MessageEv f)
  assume "wire_ok s"
  with MessageEv show ?thesis by (auto simp: onmessage_keeps wire_ok_def split: if_splits)
next
  case (SelectEv i)
  assume "wire_ok s"
  with SelectEv show ?thesis by (auto simp: select_tool_wire wire_ok_def split: if_splits)
next
  case (ArgEv k v)
  assume "wire_ok s"
  with ArgEv show ?thesis by (auto simp: handleArgChange_def wire_ok_def split: if_splits)
next
  case CallEv
  assume "wire_ok s"
  with CallEv handleCallTool_wire[of s] show ?thesis
    by (auto simp: wire_ok_def hd_append split: if_splits)
qed

lemma wire_ok_run: "wire_ok s \<Longrightarrow> wire_ok (run s es)"
  by (induction es arbitrary: s) (simp_all add: wire_ok_step)

lemma wire_ok_mount: "wire_ok mount"
  by (simp add: wire_ok_def mount_def)

lemma request_shape_frames:
  "request_shape initialize_frame \<and> request_shape list_frame \<and>
   request_shape (call_frame sel args)"
  by (simp add: request_shape_def initialize_frame_def list_frame_def call_frame_def)

lemma request_shape_step:
  assumes "list_all request_shape (sent s)"
  shows "list_all request_shape (sent (step s e))"
proof -
  obtain fs where fs: "sent (step s e) = sent s @ fs"
    "set fs \<subseteq> {initialize_frame, list_frame, call_frame (selectedTool s) (toolArgs s)}"
    using step_sent by blast
  from fs(2) have "list_all request_shape fs"
    using request_shape_frames by (auto simp: list_all_iff)
  with assms fs(1) show ?thesis by simp
qed

lemma request_shape_run:
  "list_all request_shape (sent s) \<Longrightarrow> list_all request_shape (sent (run s es))"
  by (induction es arbitrary: s) (simp_all add: request_shape_step)

subsection \<open>The status and the socket\<close>




subsection \<open>Correlation of calls and responses\<close>




subsection \<open>Closing the transport\<close>

text \<open>
  C2 at a state where one call is loading: \<^verbatim>\<open>onclose\<close> sets the status and the error
  message and leaves \<open>loading\<close> set, so the call button stays disabled and a click on it
  does nothing.
\<close>

theorem close_leaves_call_loading:
  "step (calling_state ''check_stock'' []) CloseEv =
     (calling_state ''check_stock'' [])\<lparr> status := Offline, error := msg_closed, readyState := 3 \<rparr>
   \<and> loading (step (calling_state ''check_stock'' []) CloseEv)
   \<and> step (step (calling_state ''check_stock'' []) CloseEv) CallEv
       = step (calling_state ''check_stock'' []) CloseEv"
  by (simp add: calling_state_def idle_state_def onclose_def Let_def)

subsection \<open>Calls on a socket that is not open\<close>




subsection \<open>Frames that do not parse or are no envelope\<close>




subsection \<open>Arguments of a call\<close>

text \<open>
  C5, as the code has it. \<^verbatim>\<open>handleCallTool\<close> checks that the socket is open and that
  the selected tool is in the list, and nothing else: the schema of the tool is not read,
  and one \<^verbatim>\<open>tools/call\<close> frame goes out with the argument map as the form left it.
\<close>

theorem call_sends_arguments_as_given:
  assumes "socket_open s"
    and "tools_find (tools s) (selectedTool s) = Inr (Some tool)"
  shows "handleCallTool s =
           Normal (s\<lparr> loading := True, response := [], error := [],
                     sent := sent s @ [call_frame (selectedTool s) (toolArgs s)] \<rparr>)"
  using assms by (simp add: handleCallTool_def socket_open_def socket_send_def Let_def)

theorem call_sends_arguments_as_given_witness:
  "socket_open (selected_state ''process_payment'' []) \<and>
   tools_find (tools (selected_state ''process_payment'' []))
     (selectedTool (selected_state ''process_payment'' [])) = Inr (Some payment_tool) \<and>
   sent (state_of (handleCallTool (selected_state ''process_payment'' []))) =
     [initialize_frame, list_frame, call_frame ''process_payment'' []]"
proof -
  have h1: "socket_open (selected_state ''process_payment'' [])"
    by (simp add: socket_open_def selected_state_def idle_state_def)
  have h2: "tools_find (tools (selected_state ''process_payment'' []))
              (selectedTool (selected_state ''process_payment'' [])) = Inr (Some payment_tool)"
    by (simp add: selected_state_def idle_state_def tools_find_def payment_tool_def
        check_stock_tool_def field_def)
  from call_sends_arguments_as_given[OF h1 h2] h1 h2 show ?thesis
    by (simp add: selected_state_def idle_state_def)
qed

text \<open>
  The claim as the specification states it fails: for the tool that requires \<^verbatim>\<open>a\<close>
  and \<^verbatim>\<open>b\<close>, a call with no argument and a call with \<^verbatim>\<open>a = "x"\<close> are both sent, and
  no error is reported.
\<close>

theorem call_sends_unvalidated_arguments_counterexample:
  "tools_find (tools (selected_state ''process_payment'' [])) ''process_payment''
     = Inr (Some payment_tool) \<and>
   handleCallTool (selected_state ''process_payment'' []) =
     Normal (calling_state ''process_payment'' []) \<and>
   error (calling_state ''process_payment'' []) = [] \<and>
   handleCallTool (selected_state ''process_payment'' [(''a'', JStr ''x''), (''b'', JStr ''y'')]) =
     Normal (calling_state ''process_payment'' [(''a'', JStr ''x''), (''b'', JStr ''y'')])"
  by (simp add: selected_state_def calling_state_def idle_state_def handleCallTool_def
      tools_find_def payment_tool_def check_stock_tool_def field_def socket_send_def Let_def)

subsection \<open>The order of the handshake\<close>

text \<open>
  C6, as the code has it. When the socket opens the component shows the status
  \<^verbatim>\<open>online\<close>, sends the \<^verbatim>\<open>initialize\<close> request and starts a timer; when the timer
  runs on the open socket the \<^verbatim>\<open>tools/list\<close> request is sent, whatever has or has not
  arrived in between. In every run the first frame sent is the \<^verbatim>\<open>initialize\<close>
  request, so the \<^verbatim>\<open>tools/list\<close> request never goes before it. A frame whose
  \<^verbatim>\<open>result.tools\<close> is truthy replaces the tool list and changes nothing else.
\<close>

theorem list_request_follows_timer:
  "sent (step s OpenEv) = sent s @ [initialize_frame] \<and>
   status (step s OpenEv) = Online \<and>
   listTimer (step s OpenEv) = Suc (listTimer s) \<and>
   (0 < listTimer s \<and> readyState s = 1 \<longrightarrow>
      step s ListTimerEv = s\<lparr> listTimer := listTimer s - 1, sent := sent s @ [list_frame] \<rparr>) \<and>
   (sent (run mount es) \<noteq> [] \<longrightarrow> hd (sent (run mount es)) = initialize_frame) \<and>
   (data \<noteq> JNull \<and> truthy_field (field data ''result'') ''tools'' = Some ts \<longrightarrow>
      onmessage s (Parsed data) = s\<lparr> tools := ts \<rparr>)"
proof (intro conjI impI)
  show "sent (step s OpenEv) = sent s @ [initialize_frame]"
    by (simp add: onopen_effect)
  show "status (step s OpenEv) = Online"
    by (simp add: onopen_effect)
  show "listTimer (step s OpenEv) = Suc (listTimer s)"
    by (simp add: onopen_effect)
next
  assume "0 < listTimer s \<and> readyState s = 1"
  then show "step s ListTimerEv =
      s\<lparr> listTimer := listTimer s - 1, sent := sent s @ [list_frame] \<rparr>"
    by (simp add: list_timeout_def socket_send_def)
next
  assume ne: "sent (run mount es) \<noteq> []"
  have "wire_ok (run mount es)"
    by (rule wire_ok_run[OF wire_ok_mount])
  with ne show "hd (sent (run mount es)) = initialize_frame"
    by (simp add: wire_ok_def)
next
  assume "data \<noteq> JNull \<and> truthy_field (field data ''result'') ''tools'' = Some ts"
  then show "onmessage s (Parsed data) = s\<lparr> tools := ts \<rparr>"
    by (simp add: onmessage_def try_block_def)
qed

theorem list_request_follows_timer_witness:
  "sent (step mount OpenEv) = [initialize_frame] \<and>
   step (step mount OpenEv) ListTimerEv =
     mount\<lparr> status := Online, isOpen := True, readyState := 1,
            sent := [initialize_frame, list_frame] \<rparr> \<and>
   sent (run mount handshake) \<noteq> [] \<and>
   hd (sent (run mount handshake)) = initialize_frame \<and>
   tools (onmessage mount tools_frame) = JArr [check_stock_tool, payment_tool]"
proof -
  note t = list_request_follows_timer
  have o: "step mount OpenEv =
             mount\<lparr> status := Online, isOpen := True, readyState := 1,
                    sent := [initialize_frame], listTimer := 1 \<rparr>"
    by (simp add: mount_def onopen_def socket_send_def)
  have a: "sent (step mount OpenEv) = [initialize_frame]"
    using t[of mount] by (simp add: mount_def)
  have b: "step (step mount OpenEv) ListTimerEv =
     mount\<lparr> status := Online, isOpen := True, readyState := 1,
            sent := [initialize_frame, list_frame] \<rparr>"
    using t[of "step mount OpenEv"] unfolding o by (simp add: mount_def)
  have c: "sent (run mount handshake) \<noteq> []"
    by (simp add: idle_state_reached idle_state_def)
  with t[of _ handshake] have d: "hd (sent (run mount handshake)) = initialize_frame"
    by blast
  have e: "tools (onmessage mount tools_frame) = JArr [check_stock_tool, payment_tool]"
    unfolding tools_frame_def
    using t[of mount _ "JObj [(''jsonrpc'', JStr ''2.0''), (''id'', JStr ''list''),
                   (''result'', JObj [(''tools'', JArr [check_stock_tool, payment_tool])])]"
               "JArr [check_stock_tool, payment_tool]"]
    by (simp add: field_def truthy_field_def truthy_val_def)
  from a b c d e show ?thesis by blast
qed

text \<open>
  The claim as the specification states it fails: the socket opens and the timer runs, no
  frame has arrived, and the \<^verbatim>\<open>tools/list\<close> request is on the wire; and the status is
  \<^verbatim>\<open>online\<close> as soon as the socket is open, with an empty tool list.
\<close>

theorem list_request_sent_without_initialize_response_counterexample:
  "run mount [OpenEv, ListTimerEv] =
     mount\<lparr> status := Online, isOpen := True, readyState := 1,
            sent := [initialize_frame, list_frame] \<rparr> \<and>
   status (run mount [OpenEv]) = Online \<and>
   tools (run mount [OpenEv]) = JArr []"
  by (simp add: mount_def onopen_def socket_send_def list_timeout_def)

subsection \<open>Responses nobody waits for\<close>




subsection \<open>Errors of one call\<close>

text \<open>
  C8, as the code has it. A call for a tool that is not in the list, and an error response
  of the server, leave the status, the socket, the tool list, the selection and the frames
  sent as they were. Both are reported through the one error message of the component and
  both clear its one loading flag, whichever call is loading.
\<close>

theorem call_local_error_uses_shared_display:
  "(socket_open s \<and> tools_find (tools s) (selectedTool s) = Inr None \<longrightarrow>
      handleCallTool s =
        Normal (s\<lparr> loading := False, response := [], error := msg_not_found \<rparr>)) \<and>
   (data \<noteq> JNull \<and> truthy_field (field data ''result'') ''tools'' = None \<and>
    truthy_field (field data ''result'') ''content'' = None \<and>
    truthy_val (field data ''error'') = Some err \<longrightarrow>
      onmessage s' (Parsed data) =
        s'\<lparr> error := to_string_opt (field err ''message'') @
                       (if truthy_opt (field err ''data'')
                        then '': '' @ to_string_opt (field err ''data'') else []),
            loading := False \<rparr>)"
  by (simp add: handleCallTool_def socket_open_def Let_def onmessage_def try_block_def)

theorem call_local_error_uses_shared_display_witness:
  "socket_open stale_selection \<and>
   tools_find (tools stale_selection) (selectedTool stale_selection) = Inr None \<and>
   handleCallTool stale_selection = Normal (stale_selection\<lparr> error := msg_not_found \<rparr>) \<and>
   onmessage (calling_state ''process_payment'' [])
       (error_frame ''call_check_stock'' (-32000) ''out of stock'')
     = (calling_state ''process_payment'' [])\<lparr> error := ''out of stock'', loading := False \<rparr>"
proof -
  note t = call_local_error_uses_shared_display
  have h1: "socket_open stale_selection"
    by (simp add: stale_selection_def socket_open_def selected_state_def idle_state_def)
  have h2: "tools_find (tools stale_selection) (selectedTool stale_selection) = Inr None"
    by (simp add: stale_selection_def selected_state_def idle_state_def tools_find_def
        payment_tool_def field_def)
  from t[of stale_selection] h1 h2
  have a: "handleCallTool stale_selection = Normal (stale_selection\<lparr> error := msg_not_found \<rparr>)"
    by (simp add: stale_selection_def selected_state_def idle_state_def)
  have b: "onmessage (calling_state ''process_payment'' [])
       (error_frame ''call_check_stock'' (-32000) ''out of stock'')
     = (calling_state ''process_payment'' [])\<lparr> error := ''out of stock'', loading := False \<rparr>"
    unfolding error_frame_def
    using t[of _ "JObj [(''jsonrpc'', JStr ''2.0''), (''id'', JStr ''call_check_stock''),
                   (''error'', JObj [(''code'', JNum (-32000)),
                                     (''message'', JStr ''out of stock'')])]"
              "JObj [(''code'', JNum (-32000)), (''message'', JStr ''out of stock'')]"
              "calling_state ''process_payment'' []"]
    by (simp add: field_def truthy_field_def truthy_val_def to_string_opt_def truthy_opt_def)
  from h1 h2 a b show ?thesis by blast
qed

text \<open>
  The claim as the specification states it fails. The call of \<^verbatim>\<open>check_stock\<close> has had
  no answer when a frame that does not parse clears the loading flag; the call of
  \<^verbatim>\<open>process_payment\<close> is made and is loading; then the error response to the call of
  \<^verbatim>\<open>check_stock\<close> arrives and ends the call of \<^verbatim>\<open>process_payment\<close> with the error of
  the other call.
\<close>

theorem error_of_one_call_ends_another_counterexample:
  "run mount (handshake @ [SelectEv 0, CallEv, MessageEv (BadJSON ''x''), SelectEv 1, CallEv])
     = (calling_state ''process_payment'' [])\<lparr> sent := [initialize_frame, list_frame,
          call_frame ''check_stock'' [], call_frame ''process_payment'' []] \<rparr> \<and>
   loading (calling_state ''process_payment'' []) \<and>
   run mount (handshake @ [SelectEv 0, CallEv, MessageEv (BadJSON ''x''), SelectEv 1, CallEv,
                           MessageEv (error_frame ''call_check_stock'' (-32000) ''out of stock'')])
     = (calling_state ''process_payment'' [])\<lparr> sent := [initialize_frame, list_frame,
          call_frame ''check_stock'' [], call_frame ''process_payment'' []],
          loading := False, error := ''out of stock'' \<rparr>"
proof -
  have a: "run mount (handshake @
             [SelectEv 0, CallEv, MessageEv (BadJSON ''x''), SelectEv 1, CallEv])
     = (calling_state ''process_payment'' [])\<lparr> sent := [initialize_frame, list_frame,
          call_frame ''check_stock'' [], call_frame ''process_payment'' []] \<rparr>"
    by code_simp
  have b: "loading (calling_state ''process_payment'' [])"
    by (simp add: calling_state_def)
  have c: "run mount (handshake @
             [SelectEv 0, CallEv, MessageEv (BadJSON ''x''), SelectEv 1, CallEv,
              MessageEv (error_frame ''call_check_stock'' (-32000) ''out of stock'')])
     = (calling_state ''process_payment'' [])\<lparr> sent := [initialize_frame, list_frame,
          call_frame ''check_stock'' [], call_frame ''process_payment'' []],
          loading := False, error := ''out of stock'' \<rparr>"
    by code_simp
  from a b c show ?thesis by blast
qed

subsection \<open>The shape of a request\<close>

text \<open>
  C9, as the code has it. Every frame the component sends in any run is an object with the
  fields \<^verbatim>\<open>jsonrpc\<close>, \<^verbatim>\<open>id\<close>, \<^verbatim>\<open>method\<close> and \<^verbatim>\<open>params\<close>: the field of the protocol
  version is named \<^verbatim>\<open>jsonrpc\<close> and holds the string \<^verbatim>\<open>2.0\<close>.
\<close>

theorem request_frames_use_jsonrpc_field:
  "list_all request_shape (sent (run mount es)) \<and>
   field initialize_frame ''jsonrpc'' = Some (JStr ''2.0'') \<and>
   field list_frame ''jsonrpc'' = Some (JStr ''2.0'') \<and>
   field (call_frame sel args) ''jsonrpc'' = Some (JStr ''2.0'')"
proof -
  have "list_all request_shape (sent mount)" by (simp add: mount_def)
  then have "list_all request_shape (sent (run mount es))" by (rule request_shape_run)
  then show ?thesis
    by (simp add: field_def initialize_frame_def list_frame_def call_frame_def)
qed

theorem request_frames_use_jsonrpc_field_witness:
  "list_all request_shape [initialize_frame, list_frame, call_frame ''check_stock'' []]"
  using request_frames_use_jsonrpc_field[of "handshake @ [SelectEv 0, CallEv]"]
  by (simp add: calling_state_reached calling_state_def idle_state_def)

text \<open>The claim as the specification states it fails: the \<^verbatim>\<open>initialize\<close> request has
  no field named \<^verbatim>\<open>protocol\<close>.\<close>

theorem request_frame_has_no_protocol_field_counterexample:
  "sent (step mount OpenEv) = [initialize_frame] \<and>
   field initialize_frame ''protocol'' = None \<and>
   field initialize_frame ''jsonrpc'' = Some (JStr ''2.0'')"
  by (simp add: mount_def onopen_def socket_send_def initialize_frame_def field_def)

subsection \<open>Frames the handler drops\<close>

text \<open>
  C10, as the code has it. A parsed frame other than \<^verbatim>\<open>null\<close> that has no \<^verbatim>\<open>error\<close>
  field and whose \<^verbatim>\<open>result\<close>, if it has one, has neither a \<^verbatim>\<open>tools\<close> nor a
  \<^verbatim>\<open>content\<close> property leaves the whole state as it was; the acknowledgement of
  \<^verbatim>\<open>initialize\<close> is such a frame.
\<close>

theorem frame_without_tools_content_error_is_dropped:
  assumes "data \<noteq> JNull"
    and "\<not> has_field data ''error''"
    and "\<forall>r. field data ''result'' = Some r \<longrightarrow>
              \<not> has_field r ''tools'' \<and> \<not> has_field r ''content''"
  shows "onmessage s (Parsed data) = s"
proof -
  have e: "truthy_val (field data ''error'') = None"
    using assms(2) by (simp add: has_field_def truthy_val_def)
  have t: "truthy_field (field data ''result'') k = None"
    if "k = ''tools'' \<or> k = ''content''" for k
  proof (cases "field data ''result''")
    case None
    then show ?thesis by (simp add: truthy_field_def truthy_val_def)
  next
    case (Some r)
    with assms(3) that have "field r k = None" by (auto simp: has_field_def)
    with Some show ?thesis by (simp add: truthy_field_def truthy_val_def)
  qed
  show ?thesis
    using assms(1) by (simp add: onmessage_def try_block_def t e)
qed

theorem frame_without_tools_content_error_is_dropped_witness:
  "initialize_ack \<noteq> JNull \<and> \<not> has_field initialize_ack ''error'' \<and>
   field initialize_ack ''result'' \<noteq> None \<and>
   onmessage (calling_state ''check_stock'' []) (Parsed initialize_ack)
     = calling_state ''check_stock'' []"
proof -
  have h1: "initialize_ack \<noteq> JNull" by (simp add: initialize_ack_def)
  have h2: "\<not> has_field initialize_ack ''error''"
    by (simp add: initialize_ack_def has_field_def field_def)
  have h3: "\<forall>r. field initialize_ack ''result'' = Some r \<longrightarrow>
              \<not> has_field r ''tools'' \<and> \<not> has_field r ''content''"
    by (simp add: initialize_ack_def has_field_def field_def)
  have h4: "field initialize_ack ''result'' \<noteq> None"
    by (simp add: initialize_ack_def field_def)
  from frame_without_tools_content_error_is_dropped[OF h1 h2 h3] h1 h2 h4
  show ?thesis by simp
qed

text \<open>
  The claim as the specification states it fails at the frame \<^verbatim>\<open>null\<close>: it parses, it
  has no \<^verbatim>\<open>error\<close> field and no \<^verbatim>\<open>result\<close>, and reading \<^verbatim>\<open>data.result\<close> throws,
  so the \<^verbatim>\<open>catch\<close> block sets the error message and clears the loading flag.
\<close>

theorem null_frame_is_reported_counterexample:
  "\<not> has_field JNull ''error'' \<and> field JNull ''result'' = None \<and>
   loading (calling_state ''check_stock'' []) \<and>
   error (calling_state ''check_stock'' []) = [] \<and>
   \<not> loading (onmessage (calling_state ''check_stock'' []) (Parsed JNull)) \<and>
   error (onmessage (calling_state ''check_stock'' []) (Parsed JNull)) =
     ''Erreur de parsing MCP: TypeError: Cannot read properties of null (reading 'result')''"
  by (simp add: has_field_def field_def calling_state_def idle_state_def onmessage_def
      try_block_def catch_block_def)

end
